theory Spec2Isabelle
  imports Complex_Main "HOL-Library.AList"
begin

section \<open>Values, dictionaries and exceptions\<close>

text \<open>
  The token data handled by \<^verbatim>\<open>auth.py\<close> and \<^verbatim>\<open>token_store.py\<close> are the Python values
  that \<^verbatim>\<open>json.loads\<close> produces. A Python \<^verbatim>\<open>dict\<close> with string keys is an association
  list: lookup is \<open>map_of\<close>, the assignment \<^verbatim>\<open>d[k] = v\<close> is \<open>AList.update\<close> (in place when
  the key is there, appended otherwise, as Python's insertion order has it) and
  \<^verbatim>\<open>d.pop(k, None)\<close> is \<open>AList.delete\<close>. JSON numbers are the integer ones (the persisted
  \<^verbatim>\<open>expires_at\<close> is integer unix seconds); the clock is a real number, which every value
  of \<^verbatim>\<open>time.time()\<close> is, and Python compares and truncates it exactly.
\<close>

datatype json =
    JNull
  | JBool bool
  | JInt int
  | JStr string
  | JArr "json list"
  | JObj "(string \<times> json) list"

type_synonym pydict = "(string \<times> json) list"

text \<open>The exceptions that the two modules can raise, with the argument that tells them apart.\<close>

datatype error =
    KeyError string
  | ValueError string
  | TypeError
  | HTTPStatusError nat
  | JSONDecodeError
  | TransportError

text \<open>Python's truth value of an object, as \<^verbatim>\<open>not x\<close> and \<^verbatim>\<open>if x\<close> test it.\<close>

fun truthy :: "json \<Rightarrow> bool" where
  "truthy JNull = False"
| "truthy (JBool b) = b"
| "truthy (JInt n) = (n \<noteq> 0)"
| "truthy (JStr s) = (s \<noteq> [])"
| "truthy (JArr xs) = (xs \<noteq> [])"
| "truthy (JObj kvs) = (kvs \<noteq> [])"

text \<open>
  The operand of an integer \<^verbatim>\<open>+\<close> or \<^verbatim>\<open>-\<close>: an \<^verbatim>\<open>int\<close>, or a \<^verbatim>\<open>bool\<close> counted as 0 or 1;
  with anything else the operator raises \<^verbatim>\<open>TypeError\<close>.
\<close>

fun as_int :: "json \<Rightarrow> int option" where
  "as_int (JInt n) = Some n"
| "as_int (JBool b) = Some (if b then 1 else 0)"
| "as_int _ = None"

text \<open>\<^verbatim>\<open>int(x)\<close> of a float truncates towards zero.\<close>

definition py_int :: "real \<Rightarrow> int" where
  "py_int x = (if 0 \<le> x then \<lfloor>x\<rfloor> else \<lceil>x\<rceil>)"

text \<open>\<^verbatim>\<open>d[k]\<close> raises \<^verbatim>\<open>KeyError(k)\<close> on a missing key.\<close>

definition dict_getitem :: "(string \<times> 'v) list \<Rightarrow> string \<Rightarrow> error + 'v" where
  "dict_getitem d k = (case map_of d k of None \<Rightarrow> Inl (KeyError k) | Some v \<Rightarrow> Inr v)"

text \<open>\<^verbatim>\<open>sep.join(xs)\<close>.\<close>

fun join :: "string \<Rightarrow> string list \<Rightarrow> string" where
  "join sep [] = []"
| "join sep [x] = x"
| "join sep (x # y # ys) = x @ sep @ join sep (y # ys)"

section \<open>Configuration (\<^verbatim>\<open>config.py\<close>)\<close>

record settings =
  strava_client_id :: string
  strava_client_secret :: string
  strava_auth_url :: string
  strava_token_url :: string
  strava_scopes :: string
  whoop_client_id :: string
  whoop_client_secret :: string
  whoop_auth_url :: string
  whoop_token_url :: string
  whoop_scopes :: string
  app_base_url :: string
  secret_key :: string
  openai_api_key :: string

text \<open>The defaults of the \<^verbatim>\<open>Settings\<close> class, which a \<^verbatim>\<open>.env\<close> file may override.\<close>

definition default_settings :: settings where
  "default_settings =
     \<lparr> strava_client_id = '''',
       strava_client_secret = '''',
       strava_auth_url = ''https://www.strava.com/oauth/authorize'',
       strava_token_url = ''https://www.strava.com/oauth/token'',
       strava_scopes = ''read,activity:read_all'',
       whoop_client_id = '''',
       whoop_client_secret = '''',
       whoop_auth_url = ''https://api.prod.whoop.com/oauth/oauth2/auth'',
       whoop_token_url = ''https://api.prod.whoop.com/oauth/oauth2/token'',
       whoop_scopes = ''read:recovery read:sleep read:workout read:profile read:body_measurement'',
       app_base_url = ''http://localhost:8000'',
       secret_key = ''change-me'',
       openai_api_key = '''' \<rparr>"

section \<open>The world outside the process\<close>

text \<open>
  An outbound form-encoded POST, and what comes back: no response at all (a transport
  failure, which \<^verbatim>\<open>httpx\<close> raises), or a status code with a body that is a JSON object
  (\<open>Some\<close>) or does not parse (\<open>None\<close>).
\<close>

record http_request =
  url :: string
  data :: pydict

datatype http_result =
    NoResponse
  | Response nat "pydict option"

text \<open>
  The environment is what the code reads and cannot change: the settings, the clock
  (the value of the \<open>n\<close>-th call of \<^verbatim>\<open>time.time()\<close>) and the providers' token endpoints
  (the answer to the last request of a history of requests).
\<close>

record env =
  settings :: settings
  clock :: "nat \<Rightarrow> real"
  server :: "http_request list \<Rightarrow> http_result"

text \<open>
  The state the code changes: the file \<^verbatim>\<open>token_store.json\<close> (\<open>None\<close> while it does not
  exist), the number of clock readings made, and the requests sent so far.
\<close>

record world =
  store_file :: "(string \<times> pydict) list option"
  ticks :: nat
  sent :: "http_request list"

definition time_time :: "env \<Rightarrow> world \<Rightarrow> real \<times> world" where
  "time_time e w = (clock e (ticks w), w\<lparr>ticks := Suc (ticks w)\<rparr>)"

text \<open>\<^verbatim>\<open>client.post(url, data=payload)\<close>: the request leaves, then the answer or the failure.\<close>

definition http_post :: "env \<Rightarrow> string \<Rightarrow> pydict \<Rightarrow> world \<Rightarrow> (error + (nat \<times> pydict option)) \<times> world" where
  "http_post e u payload w =
     (let w1 = w\<lparr>sent := sent w @ [\<lparr>url = u, data = payload\<rparr>]\<rparr>
      in case server e (sent w1) of
           NoResponse \<Rightarrow> (Inl TransportError, w1)
         | Response status body \<Rightarrow> (Inr (status, body), w1))"

text \<open>\<^verbatim>\<open>response.raise_for_status()\<close> of httpx: any status outside 2xx raises.\<close>

definition raise_for_status :: "nat \<times> pydict option \<Rightarrow> error + unit" where
  "raise_for_status r =
     (if 200 \<le> fst r \<and> fst r \<le> 299 then Inr () else Inl (HTTPStatusError (fst r)))"

text \<open>\<^verbatim>\<open>response.json()\<close>.\<close>

definition response_json :: "nat \<times> pydict option \<Rightarrow> error + pydict" where
  "response_json r = (case snd r of None \<Rightarrow> Inl JSONDecodeError | Some d \<Rightarrow> Inr d)"

section \<open>The token store (\<^verbatim>\<open>token_store.py\<close>)\<close>

definition load_store :: "world \<Rightarrow> (string \<times> pydict) list" where
  "load_store w = (case store_file w of None \<Rightarrow> [] | Some s \<Rightarrow> s)"

definition save_store :: "(string \<times> pydict) list \<Rightarrow> world \<Rightarrow> world" where
  "save_store s w = w\<lparr>store_file := Some s\<rparr>"

text \<open>
  \<^verbatim>\<open>save_tokens\<close> changes the dictionary it is given (the caller's object), so the model
  returns it: the caller goes on with the changed one.
\<close>

definition save_tokens :: "env \<Rightarrow> string \<Rightarrow> pydict \<Rightarrow> world \<Rightarrow> (error + pydict) \<times> world" where
  "save_tokens e provider token_data w =
     (let store = load_store w;
          normalized =
            (case (map_of token_data ''expires_at'', map_of token_data ''expires_in'') of
               (None, Some expires_in) \<Rightarrow>
                 (let (now, w1) = time_time e w
                  in case as_int expires_in of
                       None \<Rightarrow> (Inl TypeError, w1)
                     | Some n \<Rightarrow>
                         (Inr (AList.update ''expires_at'' (JInt (py_int now + n)) token_data), w1))
             | _ \<Rightarrow> (Inr token_data, w))
      in case normalized of
           (Inl err, w1) \<Rightarrow> (Inl err, w1)
         | (Inr td, w1) \<Rightarrow>
             (case dict_getitem td ''access_token'' of
                Inl err \<Rightarrow> (Inl err, w1)
              | Inr access \<Rightarrow>
                  (case dict_getitem td ''refresh_token'' of
                     Inl err \<Rightarrow> (Inl err, w1)
                   | Inr refresh \<Rightarrow>
                       (Inr td,
                        save_store
                          (AList.update provider
                             [(''access_token'', access),
                              (''refresh_token'', refresh),
                              (''expires_at'',
                                 (case map_of td ''expires_at'' of None \<Rightarrow> JInt 0 | Some v \<Rightarrow> v))]
                             store)
                          w1))))"

definition get_tokens :: "string \<Rightarrow> world \<Rightarrow> pydict option" where
  "get_tokens provider w = map_of (load_store w) provider"

text \<open>
  \<^verbatim>\<open>not tokens\<close> holds of \<^verbatim>\<open>None\<close> and of the empty dictionary. In the comparison the
  clock is read first, then \<^verbatim>\<open>tokens["expires_at"]\<close>, then the subtraction.
\<close>

definition is_token_expired :: "env \<Rightarrow> string \<Rightarrow> world \<Rightarrow> (error + bool) \<times> world" where
  "is_token_expired e provider w =
     (case get_tokens provider w of
        None \<Rightarrow> (Inr True, w)
      | Some tokens \<Rightarrow>
          (if tokens = [] then (Inr True, w)
           else (let (now, w1) = time_time e w
                 in (case dict_getitem tokens ''expires_at'' of
                       Inl err \<Rightarrow> (Inl err, w1)
                     | Inr v \<Rightarrow>
                         (case as_int v of
                            None \<Rightarrow> (Inl TypeError, w1)
                          | Some expires_at \<Rightarrow>
                              (Inr (now > real_of_int (expires_at - 300)), w1))))))"

definition delete_tokens :: "string \<Rightarrow> world \<Rightarrow> world" where
  "delete_tokens provider w = save_store (AList.delete provider (load_store w)) w"

section \<open>The OAuth service (\<^verbatim>\<open>auth.py\<close>)\<close>

text \<open>
  The registry. The client id and secret are read through an accessor at the point of
  use (the \<^verbatim>\<open>lambda\<close> of the source); the other fields are values.
\<close>

record provider_cfg =
  client_id :: "unit \<Rightarrow> string"
  client_secret :: "unit \<Rightarrow> string"
  auth_url :: string
  token_url :: string
  scopes :: string
  scope_separator :: string

definition PROVIDERS :: "settings \<Rightarrow> (string \<times> provider_cfg) list" where
  "PROVIDERS s =
     [(''strava'',
         \<lparr> client_id = (\<lambda>_. strava_client_id s),
           client_secret = (\<lambda>_. strava_client_secret s),
           auth_url = strava_auth_url s,
           token_url = strava_token_url s,
           scopes = strava_scopes s,
           scope_separator = '','' \<rparr>),
      (''whoop'',
         \<lparr> client_id = (\<lambda>_. whoop_client_id s),
           client_secret = (\<lambda>_. whoop_client_secret s),
           auth_url = whoop_auth_url s,
           token_url = whoop_token_url s,
           scopes = whoop_scopes s,
           scope_separator = '' '' \<rparr>)]"

definition redirect_uri_of :: "settings \<Rightarrow> string \<Rightarrow> string" where
  "redirect_uri_of s provider = app_base_url s @ ''/auth/'' @ provider @ ''/callback''"

definition get_authorize_url :: "env \<Rightarrow> string \<Rightarrow> error + string" where
  "get_authorize_url e provider =
     (case dict_getitem (PROVIDERS (settings e)) provider of
        Inl err \<Rightarrow> Inl err
      | Inr cfg \<Rightarrow>
          (let redirect_uri = redirect_uri_of (settings e) provider;
               params =
                 [(''client_id'', client_id cfg ()),
                  (''redirect_uri'', redirect_uri),
                  (''response_type'', ''code''),
                  (''scope'', scopes cfg)];
               query = join ''&'' (map (\<lambda>(k, v). k @ ''='' @ v) params)
           in Inr (auth_url cfg @ ''?'' @ query)))"

text \<open>
  The part that the code exchange and the refresh share word for word: the POST, the
  status check, the body, which \<^verbatim>\<open>async with\<close> wraps in both.
\<close>

definition post_for_token_data :: "env \<Rightarrow> string \<Rightarrow> pydict \<Rightarrow> world \<Rightarrow> (error + pydict) \<times> world" where
  "post_for_token_data e u payload w =
     (case http_post e u payload w of
        (Inl err, w1) \<Rightarrow> (Inl err, w1)
      | (Inr response, w1) \<Rightarrow>
          (case raise_for_status response of
             Inl err \<Rightarrow> (Inl err, w1)
           | Inr _ \<Rightarrow>
               (case response_json response of
                  Inl err \<Rightarrow> (Inl err, w1)
                | Inr token_data \<Rightarrow> (Inr token_data, w1))))"

definition exchange_payload :: "settings \<Rightarrow> provider_cfg \<Rightarrow> string \<Rightarrow> string \<Rightarrow> pydict" where
  "exchange_payload s cfg provider code =
     [(''client_id'', JStr (client_id cfg ())),
      (''client_secret'', JStr (client_secret cfg ())),
      (''code'', JStr code),
      (''grant_type'', JStr ''authorization_code''),
      (''redirect_uri'', JStr (redirect_uri_of s provider))]"

definition exchange_code_for_tokens :: "env \<Rightarrow> string \<Rightarrow> string \<Rightarrow> world \<Rightarrow> (error + pydict) \<times> world" where
  "exchange_code_for_tokens e provider code w =
     (case dict_getitem (PROVIDERS (settings e)) provider of
        Inl err \<Rightarrow> (Inl err, w)
      | Inr cfg \<Rightarrow>
          (case post_for_token_data e (token_url cfg)
                  (exchange_payload (settings e) cfg provider code) w of
             (Inl err, w1) \<Rightarrow> (Inl err, w1)
           | (Inr token_data, w1) \<Rightarrow> save_tokens e provider token_data w1))"

definition refresh_payload :: "provider_cfg \<Rightarrow> json \<Rightarrow> pydict" where
  "refresh_payload cfg refresh_token =
     [(''client_id'', JStr (client_id cfg ())),
      (''client_secret'', JStr (client_secret cfg ())),
      (''grant_type'', JStr ''refresh_token''),
      (''refresh_token'', refresh_token)]"

text \<open>
  \<^verbatim>\<open>not tokens or not tokens.get("refresh_token")\<close> holds when there is no record, an
  empty one, no such key, or a value that is false in Python (\<^verbatim>\<open>None\<close>, the empty
  string); each of these raises the same \<^verbatim>\<open>ValueError\<close>.
\<close>

definition refresh_tokens :: "env \<Rightarrow> string \<Rightarrow> world \<Rightarrow> (error + pydict) \<times> world" where
  "refresh_tokens e provider w =
     (case dict_getitem (PROVIDERS (settings e)) provider of
        Inl err \<Rightarrow> (Inl err, w)
      | Inr cfg \<Rightarrow>
          (case get_tokens provider w of
             None \<Rightarrow>
               (Inl (ValueError (''No refresh token stored for '' @ provider @ ''. Re-authenticate.'')), w)
           | Some tokens \<Rightarrow>
               (case (if tokens = [] then None else map_of tokens ''refresh_token'') of
                  None \<Rightarrow>
                    (Inl (ValueError (''No refresh token stored for '' @ provider @ ''. Re-authenticate.'')), w)
                | Some stored \<Rightarrow>
                    (if \<not> truthy stored
                     then (Inl (ValueError (''No refresh token stored for '' @ provider @ ''. Re-authenticate.'')), w)
                     else
                       (case post_for_token_data e (token_url cfg) (refresh_payload cfg stored) w of
                          (Inl err, w1) \<Rightarrow> (Inl err, w1)
                        | (Inr token_data, w1) \<Rightarrow>
                            save_tokens e provider
                              (if map_of token_data ''refresh_token'' = None
                               then AList.update ''refresh_token'' stored token_data
                               else token_data)
                              w1)))))"

definition get_valid_access_token :: "env \<Rightarrow> string \<Rightarrow> world \<Rightarrow> (error + json) \<times> world" where
  "get_valid_access_token e provider w =
     (case is_token_expired e provider w of
        (Inl err, w1) \<Rightarrow> (Inl err, w1)
      | (Inr True, w1) \<Rightarrow>
          (case refresh_tokens e provider w1 of
             (Inl err, w2) \<Rightarrow> (Inl err, w2)
           | (Inr token_data, w2) \<Rightarrow> (dict_getitem token_data ''access_token'', w2))
      | (Inr False, w1) \<Rightarrow>
          (case get_tokens provider w1 of
             None \<Rightarrow>
               (Inl (ValueError (''Not authenticated with '' @ provider @ ''. Visit /auth/'' @ provider @ ''/login'')), w1)
           | Some tokens \<Rightarrow>
               (if tokens = []
                then (Inl (ValueError (''Not authenticated with '' @ provider @ ''. Visit /auth/'' @ provider @ ''/login'')), w1)
                else (dict_getitem tokens ''access_token'', w1))))"

section \<open>Example environments\<close>

text \<open>
  A provider that answers every request with status 200 and the given JSON object, a
  clock that starts at \<open>t\<close> and advances one second per reading, and a world whose only
  state is the store file.
\<close>

definition example_env :: "real \<Rightarrow> pydict \<Rightarrow> env" where
  "example_env t body =
     \<lparr> settings = default_settings,
       clock = (\<lambda>n. t + real n),
       server = (\<lambda>reqs. Response 200 (Some body)) \<rparr>"

definition example_record :: "string \<Rightarrow> string \<Rightarrow> int \<Rightarrow> pydict" where
  "example_record a r x =
     [(''access_token'', JStr a), (''refresh_token'', JStr r), (''expires_at'', JInt x)]"

definition example_world :: "(string \<times> pydict) list option \<Rightarrow> world" where
  "example_world f = \<lparr> store_file = f, ticks = 0, sent = [] \<rparr>"

definition strava_refresh_request :: "string \<Rightarrow> http_request" where
  "strava_refresh_request r =
     \<lparr> url = ''https://www.strava.com/oauth/token'',
       data = [(''client_id'', JStr []), (''client_secret'', JStr []),
               (''grant_type'', JStr ''refresh_token''), (''refresh_token'', JStr r)] \<rparr>"

section \<open>Basic facts about the operations\<close>

lemmas run_defs =
  refresh_tokens_def exchange_code_for_tokens_def get_valid_access_token_def
  get_authorize_url_def is_token_expired_def get_tokens_def load_store_def save_store_def
  save_tokens_def delete_tokens_def time_time_def post_for_token_data_def http_post_def
  raise_for_status_def response_json_def dict_getitem_def PROVIDERS_def
  refresh_payload_def exchange_payload_def redirect_uri_of_def py_int_def
  example_env_def example_record_def example_world_def strava_refresh_request_def
  default_settings_def Let_def

lemma get_tokens_store_file:
  "store_file w' = store_file w \<Longrightarrow> get_tokens p w' = get_tokens p w"
  by (simp add: get_tokens_def load_store_def)

lemma PROVIDERS_supported:
  "(map_of (PROVIDERS s) p \<noteq> None) = (p \<in> {''strava'', ''whoop''})"
  by (simp add: PROVIDERS_def)

lemma PROVIDERS_unknown:
  "p \<notin> {''strava'', ''whoop''} \<Longrightarrow> dict_getitem (PROVIDERS s) p = Inl (KeyError p)"
  by (simp add: PROVIDERS_def dict_getitem_def)

lemma update_absent: "map_of al k = None \<Longrightarrow> AList.update k v al = al @ [(k, v)]"
  by (induction al) (auto split: if_splits)

text \<open>A 2xx answer with a JSON object is handed on; the request is in the log.\<close>

lemma post_for_token_data_ok:
  assumes "server e (sent w @ [\<lparr>url = u, data = pl\<rparr>]) = Response st (Some body)"
    and "200 \<le> st" and "st \<le> 299"
  shows "post_for_token_data e u pl w =
           (Inr body, w\<lparr>sent := sent w @ [\<lparr>url = u, data = pl\<rparr>]\<rparr>)"
  using assms
  by (simp add: post_for_token_data_def http_post_def raise_for_status_def
      response_json_def Let_def)

lemma post_for_token_data_frame:
  "post_for_token_data e u pl w = (res, w1) \<Longrightarrow>
     store_file w1 = store_file w \<and> ticks w1 = ticks w \<and>
     sent w1 = sent w @ [\<lparr>url = u, data = pl\<rparr>]"
  by (auto simp: post_for_token_data_def http_post_def Let_def
      split: http_result.splits sum.splits)

text \<open>A \<^verbatim>\<open>save_tokens\<close> that raises has written nothing.\<close>

lemma save_tokens_Inl:
  "save_tokens e p td w = (Inl err, w') \<Longrightarrow> store_file w' = store_file w \<and> sent w' = sent w"
  by (auto simp: save_tokens_def Let_def time_time_def save_store_def
      split: option.splits sum.splits prod.splits if_splits)

text \<open>A \<^verbatim>\<open>save_tokens\<close> that returns has written the three-field record.\<close>

lemma save_tokens_Inr:
  "save_tokens e p td w = (Inr td', w') \<Longrightarrow>
     \<exists>a r. map_of td' ''access_token'' = Some a \<and> map_of td' ''refresh_token'' = Some r \<and>
       map_of td ''access_token'' = Some a \<and> map_of td ''refresh_token'' = Some r \<and>
       sent w' = sent w \<and>
       store_file w' = Some (AList.update p
          [(''access_token'', a), (''refresh_token'', r),
           (''expires_at'', (case map_of td' ''expires_at'' of None \<Rightarrow> JInt 0 | Some v \<Rightarrow> v))]
          (load_store w))"
  by (auto simp: save_tokens_def Let_def time_time_def save_store_def dict_getitem_def
      load_store_def update_conv'
      split: option.splits sum.splits prod.splits if_splits)

lemma save_tokens_sent: "sent (snd (save_tokens e p td w)) = sent w"
  by (cases "save_tokens e p td w"; cases "fst (save_tokens e p td w)")
     (auto dest: save_tokens_Inl save_tokens_Inr)

text \<open>
  Token data with both tokens, and with a number for \<^verbatim>\<open>expires_in\<close> where the expiry has
  to be computed, are saved: \<^verbatim>\<open>save_tokens\<close> returns.
\<close>

lemma save_tokens_returns:
  assumes acc: "map_of td ''access_token'' = Some a"
    and rft: "map_of td ''refresh_token'' = Some r"
    and num: "\<And>v. map_of td ''expires_at'' = None \<Longrightarrow> map_of td ''expires_in'' = Some v
                \<Longrightarrow> as_int v \<noteq> None"
  shows "\<exists>td' w'. save_tokens e p td w = (Inr td', w')"
proof (cases "map_of td ''expires_at'' = None \<and> map_of td ''expires_in'' \<noteq> None")
  case True
  then obtain v where at: "map_of td ''expires_at'' = None"
    and ei: "map_of td ''expires_in'' = Some v" by auto
  from num [OF at ei] obtain n where n: "as_int v = Some n" by auto
  from at ei n acc rft show ?thesis
    by (simp add: save_tokens_def Let_def time_time_def dict_getitem_def update_conv')
next
  case False
  with acc rft show ?thesis
    by (auto simp: save_tokens_def Let_def dict_getitem_def split: option.splits)
qed

section \<open>Refresh-token rotation\<close>

text \<open>
  Claim C1. A record is stored for the provider with refresh token \<open>R1\<close>, and the
  refresh reaches the provider (the provider is in the registry and \<open>R1\<close> is a true
  value, so the POST is made) and is answered with a 2xx status and a JSON object without
  the field \<^verbatim>\<open>refresh_token\<close>. Then the record stored for the provider when
  \<^verbatim>\<open>refresh_tokens\<close> is over has refresh token \<open>R1\<close>, which is not null; this holds
  whether the call returned or raised while saving. When it returned, the record is the
  one it wrote, \<open>R1\<close> in its second field, and the returned token data carry \<open>R1\<close> too.
\<close>

theorem refresh_keeps_stored_refresh_token:
  assumes rec: "get_tokens p w = Some rec"
    and r1: "map_of rec ''refresh_token'' = Some R1"
    and cfg: "map_of (PROVIDERS (settings e)) p = Some cfg"
    and tr: "truthy R1"
    and resp: "server e (sent w @ [\<lparr>url = token_url cfg, data = refresh_payload cfg R1\<rparr>])
                 = Response st (Some body)"
    and st: "200 \<le> st" "st \<le> 299"
    and omit: "map_of body ''refresh_token'' = None"
    and run: "refresh_tokens e p w = (res, w')"
  shows "\<exists>rec'. get_tokens p w' = Some rec' \<and> map_of rec' ''refresh_token'' = Some R1 \<and>
           R1 \<noteq> JNull \<and>
           (\<forall>td. res = Inr td \<longrightarrow>
              map_of td ''refresh_token'' = Some R1 \<and>
              (\<exists>a x. rec' = [(''access_token'', a), (''refresh_token'', R1), (''expires_at'', x)]))"
proof -
  from r1 have ne: "rec \<noteq> []" by auto
  let ?w1 = "w\<lparr>sent := sent w @ [\<lparr>url = token_url cfg, data = refresh_payload cfg R1\<rparr>]\<rparr>"
  have post: "post_for_token_data e (token_url cfg) (refresh_payload cfg R1) w = (Inr body, ?w1)"
    using post_for_token_data_ok [OF resp st] .
  have run': "save_tokens e p (AList.update ''refresh_token'' R1 body) ?w1 = (res, w')"
    using run rec r1 cfg tr ne post omit
    by (simp add: refresh_tokens_def dict_getitem_def)
  from tr have nn: "R1 \<noteq> JNull" by auto
  show ?thesis
  proof (cases res)
    case (Inl err)
    with run' have "store_file w' = store_file ?w1" by (simp add: save_tokens_Inl)
    then have "get_tokens p w' = get_tokens p w" by (simp add: get_tokens_def load_store_def)
    with rec r1 nn Inl show ?thesis by simp
  next
    case (Inr td)
    from save_tokens_Inr [OF run' [unfolded Inr]]
    obtain a r where
      td: "map_of td ''refresh_token'' = Some r"
      and r: "map_of (AList.update ''refresh_token'' R1 body) ''refresh_token'' = Some r"
      and sf: "store_file w' = Some (AList.update p
          [(''access_token'', a), (''refresh_token'', r),
           (''expires_at'', (case map_of td ''expires_at'' of None \<Rightarrow> JInt 0 | Some v \<Rightarrow> v))]
          (load_store ?w1))"
      by blast
    from r have "r = R1" by (simp add: update_conv')
    with sf td nn Inr show ?thesis
      by (simp add: get_tokens_def load_store_def update_conv')
  qed
qed

text \<open>
  The theorem at work: Strava holds \<open>R1\<close>, the answer has a new access token and
  \<^verbatim>\<open>expires_in\<close> and no refresh token; the record written has the new access token, the
  old refresh token and the expiry counted from the clock.
\<close>

theorem refresh_keeps_stored_refresh_token_witness:
  "get_tokens ''strava'' (example_world (Some [(''strava'', example_record ''A1'' ''R1'' 1200)]))
     = Some (example_record ''A1'' ''R1'' 1200) \<and>
   map_of (example_record ''A1'' ''R1'' 1200) ''refresh_token'' = Some (JStr ''R1'') \<and>
   truthy (JStr ''R1'') \<and>
   map_of [(''access_token'', JStr ''A2''), (''expires_in'', JInt 21600)] ''refresh_token'' = None \<and>
   fst (refresh_tokens
          (example_env 1000 [(''access_token'', JStr ''A2''), (''expires_in'', JInt 21600)])
          ''strava''
          (example_world (Some [(''strava'', example_record ''A1'' ''R1'' 1200)])))
     = Inr [(''access_token'', JStr ''A2''), (''expires_in'', JInt 21600),
            (''refresh_token'', JStr ''R1''), (''expires_at'', JInt 22600)] \<and>
   (\<exists>rec'. get_tokens ''strava''
        (snd (refresh_tokens
          (example_env 1000 [(''access_token'', JStr ''A2''), (''expires_in'', JInt 21600)])
          ''strava''
          (example_world (Some [(''strava'', example_record ''A1'' ''R1'' 1200)]))))
         = Some rec' \<and>
      map_of rec' ''refresh_token'' = Some (JStr ''R1'') \<and>
      (\<exists>a x. rec' = [(''access_token'', a), (''refresh_token'', JStr ''R1''), (''expires_at'', x)]))"
proof -
  let ?body = "[(''access_token'', JStr ''A2''), (''expires_in'', JInt 21600)]"
  let ?e = "example_env 1000 ?body"
  let ?w = "example_world (Some [(''strava'', example_record ''A1'' ''R1'' 1200)])"
  let ?cfg = "the (map_of (PROVIDERS (settings ?e)) ''strava'')"
  have h1: "get_tokens ''strava'' ?w = Some (example_record ''A1'' ''R1'' 1200)"
    by (simp add: run_defs)
  have h2: "map_of (example_record ''A1'' ''R1'' 1200) ''refresh_token'' = Some (JStr ''R1'')"
    by (simp add: example_record_def)
  have h3: "map_of (PROVIDERS (settings ?e)) ''strava'' = Some ?cfg"
    by (simp add: PROVIDERS_def)
  have h4: "truthy (JStr ''R1'')" by simp
  have h5: "server ?e (sent ?w @ [\<lparr>url = token_url ?cfg, data = refresh_payload ?cfg (JStr ''R1'')\<rparr>])
              = Response 200 (Some ?body)"
    by (simp add: example_env_def)
  have h6: "map_of ?body ''refresh_token'' = None" by simp
  have run: "refresh_tokens ?e ''strava'' ?w =
     (Inr [(''access_token'', JStr ''A2''), (''expires_in'', JInt 21600),
           (''refresh_token'', JStr ''R1''), (''expires_at'', JInt 22600)],
      \<lparr> store_file = Some [(''strava'', example_record ''A2'' ''R1'' 22600)], ticks = 1,
        sent = [strava_refresh_request ''R1''] \<rparr>)"
    by (simp add: run_defs)
  from refresh_keeps_stored_refresh_token [OF h1 h2 h3 h4 h5 _ _ h6 run]
  show ?thesis using h1 h2 h4 h6 run by auto
qed

text \<open>
  Claim C2. A record is stored for the provider, the refresh reaches the provider (as in
  C1) and is answered with a 2xx status and a JSON object whose \<^verbatim>\<open>refresh_token\<close> is
  \<open>R2\<close>. The answer is a token answer as the provider interface has it: it has an
  \<^verbatim>\<open>access_token\<close>, and where \<^verbatim>\<open>save_tokens\<close> has to compute the expiry (no
  \<^verbatim>\<open>expires_at\<close>, an \<^verbatim>\<open>expires_in\<close>) the \<^verbatim>\<open>expires_in\<close> is a number. Then
  \<^verbatim>\<open>refresh_tokens\<close> returns, the token data it returns carry \<open>R2\<close>, and the record it
  has written for the provider has the access token of the answer and refresh token
  \<open>R2\<close>, whatever \<open>R1\<close> was; one request has been sent.
\<close>

theorem refresh_persists_rotated_refresh_token:
  assumes rec: "get_tokens p w = Some rec"
    and r1: "map_of rec ''refresh_token'' = Some R1"
    and cfg: "map_of (PROVIDERS (settings e)) p = Some cfg"
    and tr: "truthy R1"
    and resp: "server e (sent w @ [\<lparr>url = token_url cfg, data = refresh_payload cfg R1\<rparr>])
                 = Response st (Some body)"
    and st: "200 \<le> st" "st \<le> 299"
    and incl: "map_of body ''refresh_token'' = Some R2"
    and acc: "map_of body ''access_token'' = Some a"
    and num: "\<And>v. map_of body ''expires_at'' = None \<Longrightarrow> map_of body ''expires_in'' = Some v
                \<Longrightarrow> as_int v \<noteq> None"
  shows "\<exists>td w' x. refresh_tokens e p w = (Inr td, w') \<and>
           map_of td ''refresh_token'' = Some R2 \<and>
           sent w' = sent w @ [\<lparr>url = token_url cfg, data = refresh_payload cfg R1\<rparr>] \<and>
           store_file w' =
             Some (AList.update p
                     [(''access_token'', a), (''refresh_token'', R2), (''expires_at'', x)]
                     (load_store w)) \<and>
           get_tokens p w' =
             Some [(''access_token'', a), (''refresh_token'', R2), (''expires_at'', x)]"
proof -
  from r1 have ne: "rec \<noteq> []" by auto
  let ?w1 = "w\<lparr>sent := sent w @ [\<lparr>url = token_url cfg, data = refresh_payload cfg R1\<rparr>]\<rparr>"
  have post: "post_for_token_data e (token_url cfg) (refresh_payload cfg R1) w = (Inr body, ?w1)"
    using post_for_token_data_ok [OF resp st] .
  have run: "refresh_tokens e p w = save_tokens e p body ?w1"
    using rec r1 cfg tr ne post incl
    by (simp add: refresh_tokens_def dict_getitem_def)
  from save_tokens_returns [OF acc incl num, of e p ?w1]
  obtain td w' where sv: "save_tokens e p body ?w1 = (Inr td, w')" by blast
  from save_tokens_Inr [OF sv]
  obtain a' r where
    td: "map_of td ''refresh_token'' = Some r"
    and a': "map_of body ''access_token'' = Some a'"
    and r: "map_of body ''refresh_token'' = Some r"
    and sn: "sent w' = sent ?w1"
    and sf: "store_file w' = Some (AList.update p
          [(''access_token'', a'), (''refresh_token'', r),
           (''expires_at'', (case map_of td ''expires_at'' of None \<Rightarrow> JInt 0 | Some v \<Rightarrow> v))]
          (load_store ?w1))"
    by blast
  from r incl have rr: "r = R2" by simp
  from a' acc have aa: "a' = a" by simp
  have ls: "load_store ?w1 = load_store w" by (simp add: load_store_def)
  from sf have "get_tokens p w' = Some
          [(''access_token'', a'), (''refresh_token'', r),
           (''expires_at'', (case map_of td ''expires_at'' of None \<Rightarrow> JInt 0 | Some v \<Rightarrow> v))]"
    by (simp add: get_tokens_def load_store_def update_conv')
  with run sv td sn sf rr aa ls show ?thesis by simp
qed

text \<open>
  The theorem at work: Strava holds \<open>R1\<close> and the answer carries \<open>R2\<close>; the call
  returns and the record written has \<open>R2\<close>.
\<close>

theorem refresh_persists_rotated_refresh_token_witness:
  "get_tokens ''strava'' (example_world (Some [(''strava'', example_record ''A1'' ''R1'' 1200)]))
     = Some (example_record ''A1'' ''R1'' 1200) \<and>
   map_of (example_record ''A1'' ''R1'' 1200) ''refresh_token'' = Some (JStr ''R1'') \<and>
   truthy (JStr ''R1'') \<and>
   map_of [(''access_token'', JStr ''A2''), (''refresh_token'', JStr ''R2''),
           (''expires_in'', JInt 21600)] ''refresh_token'' = Some (JStr ''R2'') \<and>
   map_of [(''access_token'', JStr ''A2''), (''refresh_token'', JStr ''R2''),
           (''expires_in'', JInt 21600)] ''access_token'' = Some (JStr ''A2'') \<and>
   map_of [(''access_token'', JStr ''A2''), (''refresh_token'', JStr ''R2''),
           (''expires_in'', JInt 21600)] ''expires_in'' = Some (JInt 21600) \<and>
   as_int (JInt 21600) \<noteq> None \<and>
   refresh_tokens
        (example_env 1000 [(''access_token'', JStr ''A2''), (''refresh_token'', JStr ''R2''),
                           (''expires_in'', JInt 21600)])
        ''strava''
        (example_world (Some [(''strava'', example_record ''A1'' ''R1'' 1200)]))
     = (Inr [(''access_token'', JStr ''A2''), (''refresh_token'', JStr ''R2''),
             (''expires_in'', JInt 21600), (''expires_at'', JInt 22600)],
        \<lparr> store_file = Some [(''strava'', example_record ''A2'' ''R2'' 22600)], ticks = 1,
          sent = [strava_refresh_request ''R1''] \<rparr>) \<and>
   (\<exists>x. get_tokens ''strava''
     (snd (refresh_tokens
        (example_env 1000 [(''access_token'', JStr ''A2''), (''refresh_token'', JStr ''R2''),
                           (''expires_in'', JInt 21600)])
        ''strava''
        (example_world (Some [(''strava'', example_record ''A1'' ''R1'' 1200)]))))
     = Some [(''access_token'', JStr ''A2''), (''refresh_token'', JStr ''R2''),
             (''expires_at'', x)])"
proof -
  let ?body = "[(''access_token'', JStr ''A2''), (''refresh_token'', JStr ''R2''),
                (''expires_in'', JInt 21600)]"
  let ?e = "example_env 1000 ?body"
  let ?w = "example_world (Some [(''strava'', example_record ''A1'' ''R1'' 1200)])"
  let ?cfg = "the (map_of (PROVIDERS (settings ?e)) ''strava'')"
  have h1: "get_tokens ''strava'' ?w = Some (example_record ''A1'' ''R1'' 1200)"
    by (simp add: run_defs)
  have h2: "map_of (example_record ''A1'' ''R1'' 1200) ''refresh_token'' = Some (JStr ''R1'')"
    by (simp add: example_record_def)
  have h3: "map_of (PROVIDERS (settings ?e)) ''strava'' = Some ?cfg"
    by (simp add: PROVIDERS_def)
  have h4: "truthy (JStr ''R1'')" by simp
  have h5: "server ?e (sent ?w @ [\<lparr>url = token_url ?cfg, data = refresh_payload ?cfg (JStr ''R1'')\<rparr>])
              = Response 200 (Some ?body)"
    by (simp add: example_env_def)
  have h6: "map_of ?body ''refresh_token'' = Some (JStr ''R2'')" by simp
  have h7: "map_of ?body ''access_token'' = Some (JStr ''A2'')" by simp
  have h8: "as_int v \<noteq> None" if "map_of ?body ''expires_in'' = Some v" for v
    using that by auto
  have h9: "map_of ?body ''expires_in'' = Some (JInt 21600)" by simp
  have run: "refresh_tokens ?e ''strava'' ?w =
     (Inr [(''access_token'', JStr ''A2''), (''refresh_token'', JStr ''R2''),
           (''expires_in'', JInt 21600), (''expires_at'', JInt 22600)],
      \<lparr> store_file = Some [(''strava'', example_record ''A2'' ''R2'' 22600)], ticks = 1,
        sent = [strava_refresh_request ''R1''] \<rparr>)"
    by (simp add: run_defs)
  from refresh_persists_rotated_refresh_token [OF h1 h2 h3 h4 h5 _ _ h6 h7 h8]
  have "\<exists>x. get_tokens ''strava'' (snd (refresh_tokens ?e ''strava'' ?w)) =
          Some [(''access_token'', JStr ''A2''), (''refresh_token'', JStr ''R2''),
                (''expires_at'', x)]"
    by fastforce
  with h1 h2 h4 h6 h7 h9 run show ?thesis by simp
qed

section \<open>The code exchange\<close>

text \<open>
  Claim C6. The provider is in the registry and has no record. The exchange is answered
  with a 2xx status and a JSON object with \<^verbatim>\<open>expires_in\<close> and without \<^verbatim>\<open>expires_at\<close>, and
  it returns. Then the store is the old store with one entry more, the record of this
  provider, whose \<^verbatim>\<open>expires_at\<close> is the clock read in \<^verbatim>\<open>save_tokens\<close> (the first reading
  of the call, in whole seconds as \<^verbatim>\<open>int\<close> gives them) plus \<^verbatim>\<open>expires_in\<close>; its two tokens
  are those of the answer.
\<close>

theorem exchange_creates_one_record:
  assumes cfg: "map_of (PROVIDERS (settings e)) p = Some cfg"
    and none: "get_tokens p w = None"
    and resp: "server e (sent w @ [\<lparr>url = token_url cfg,
                  data = exchange_payload (settings e) cfg p code\<rparr>]) = Response st (Some body)"
    and st: "200 \<le> st" "st \<le> 299"
    and ei: "map_of body ''expires_in'' = Some v"
    and ea: "map_of body ''expires_at'' = None"
    and run: "exchange_code_for_tokens e p code w = (Inr td, w')"
  shows "\<exists>a r n. as_int v = Some n \<and>
           map_of body ''access_token'' = Some a \<and> map_of body ''refresh_token'' = Some r \<and>
           store_file w' =
             Some (load_store w @
               [(p, [(''access_token'', a), (''refresh_token'', r),
                     (''expires_at'', JInt (py_int (clock e (ticks w)) + n))])])"
proof -
  let ?w1 = "w\<lparr>sent := sent w @ [\<lparr>url = token_url cfg,
                data = exchange_payload (settings e) cfg p code\<rparr>]\<rparr>"
  have post: "post_for_token_data e (token_url cfg) (exchange_payload (settings e) cfg p code) w
                = (Inr body, ?w1)"
    using post_for_token_data_ok [OF resp st] .
  have run': "save_tokens e p body ?w1 = (Inr td, w')"
    using run cfg post by (simp add: exchange_code_for_tokens_def dict_getitem_def)
  obtain n where n: "as_int v = Some n"
    and td: "td = AList.update ''expires_at'' (JInt (py_int (clock e (ticks w)) + n)) body"
    using run' ei ea
    by (auto simp: save_tokens_def Let_def time_time_def
        split: option.splits sum.splits prod.splits)
  from save_tokens_Inr [OF run']
  obtain a r where a: "map_of body ''access_token'' = Some a"
    and r: "map_of body ''refresh_token'' = Some r"
    and sf: "store_file w' = Some (AList.update p
          [(''access_token'', a), (''refresh_token'', r),
           (''expires_at'', (case map_of td ''expires_at'' of None \<Rightarrow> JInt 0 | Some v \<Rightarrow> v))]
          (load_store ?w1))"
    by blast
  have ls: "load_store ?w1 = load_store w" by (simp add: load_store_def)
  from none have "map_of (load_store w) p = None" by (simp add: get_tokens_def)
  with sf ls td n a r show ?thesis
    by (simp add: update_absent update_conv')
qed

text \<open>
  The theorem at work: Whoop already has a record and Strava has none; the clock reads
  1000.5 when the record is written and the answer gives six hours.
\<close>

theorem exchange_creates_one_record_witness:
  "get_tokens ''strava'' (example_world (Some [(''whoop'', example_record ''W1'' ''W2'' 5000)])) = None \<and>
   map_of [(''access_token'', JStr ''A1''), (''refresh_token'', JStr ''R1''),
           (''expires_in'', JInt 21600)] ''expires_at'' = None \<and>
   store_file (snd (exchange_code_for_tokens
       (example_env 1000.5 [(''access_token'', JStr ''A1''), (''refresh_token'', JStr ''R1''),
                            (''expires_in'', JInt 21600)])
       ''strava'' ''code''
       (example_world (Some [(''whoop'', example_record ''W1'' ''W2'' 5000)]))))
     = Some [(''whoop'', example_record ''W1'' ''W2'' 5000),
             (''strava'', example_record ''A1'' ''R1'' 22600)]"
proof -
  let ?body = "[(''access_token'', JStr ''A1''), (''refresh_token'', JStr ''R1''),
                (''expires_in'', JInt 21600)]"
  let ?e = "example_env 1000.5 ?body"
  let ?w = "example_world (Some [(''whoop'', example_record ''W1'' ''W2'' 5000)])"
  let ?cfg = "the (map_of (PROVIDERS (settings ?e)) ''strava'')"
  have h1: "map_of (PROVIDERS (settings ?e)) ''strava'' = Some ?cfg"
    by (simp add: PROVIDERS_def)
  have h2: "get_tokens ''strava'' ?w = None" by (simp add: run_defs)
  have h3: "server ?e (sent ?w @ [\<lparr>url = token_url ?cfg,
               data = exchange_payload (settings ?e) ?cfg ''strava'' ''code''\<rparr>])
              = Response 200 (Some ?body)"
    by (simp add: example_env_def)
  have h4: "map_of ?body ''expires_in'' = Some (JInt 21600)" by simp
  have h5: "map_of ?body ''expires_at'' = None" by simp
  obtain td w' where run: "exchange_code_for_tokens ?e ''strava'' ''code'' ?w = (Inr td, w')"
    by (simp add: run_defs)
  have c: "py_int (clock ?e (ticks ?w)) = 1000"
    by (simp add: py_int_def example_env_def example_world_def)
  from exchange_creates_one_record [OF h1 h2 h3 _ _ h4 h5 run]
  show ?thesis using h2 h5 run c
    by (auto simp: load_store_def example_world_def example_record_def)
qed

section \<open>The store's frame\<close>

text \<open>
  Claim C9. For two different provider identifiers \<open>p\<close> and \<open>q\<close>, saving token data for
  \<open>p\<close> (whether \<^verbatim>\<open>save_tokens\<close> returns or raises) and deleting \<open>p\<close> leave what the store
  holds under \<open>q\<close> as it was: the same record, or none as before.
\<close>

theorem store_frame:
  assumes "p \<noteq> q"
  shows "get_tokens q (snd (save_tokens e p token_data w)) = get_tokens q w \<and>
         get_tokens q (delete_tokens p w) = get_tokens q w"
proof
  obtain res w' where run: "save_tokens e p token_data w = (res, w')"
    by (cases "save_tokens e p token_data w")
  have "get_tokens q w' = get_tokens q w"
  proof (cases res)
    case (Inl err)
    with run show ?thesis by (auto dest: save_tokens_Inl intro: get_tokens_store_file)
  next
    case (Inr td)
    from save_tokens_Inr [OF run [unfolded Inr]] assms show ?thesis
      by (auto simp: get_tokens_def load_store_def update_conv')
  qed
  with run show "get_tokens q (snd (save_tokens e p token_data w)) = get_tokens q w" by simp
next
  from assms show "get_tokens q (delete_tokens p w) = get_tokens q w"
    by (simp add: get_tokens_def delete_tokens_def load_store_def save_store_def delete_conv')
qed

text \<open>
  The theorem at work: a save for Strava and a deletion of Strava, with a Whoop record in
  the store.
\<close>

theorem store_frame_witness:
  "''strava'' \<noteq> ''whoop'' \<and>
   get_tokens ''whoop''
     (snd (save_tokens (example_env 1000 [])
        ''strava'' [(''access_token'', JStr ''A2''), (''refresh_token'', JStr ''R2'')]
        (example_world (Some [(''strava'', example_record ''A1'' ''R1'' 1200),
                              (''whoop'', example_record ''W1'' ''W2'' 5000)]))))
     = Some (example_record ''W1'' ''W2'' 5000) \<and>
   get_tokens ''whoop''
     (delete_tokens ''strava''
        (example_world (Some [(''strava'', example_record ''A1'' ''R1'' 1200),
                              (''whoop'', example_record ''W1'' ''W2'' 5000)])))
     = Some (example_record ''W1'' ''W2'' 5000)"
proof -
  have h: "''strava'' \<noteq> ''whoop''" by simp
  have g: "get_tokens ''whoop''
        (example_world (Some [(''strava'', example_record ''A1'' ''R1'' 1200),
                              (''whoop'', example_record ''W1'' ''W2'' 5000)]))
       = Some (example_record ''W1'' ''W2'' 5000)"
    by (simp add: get_tokens_def load_store_def example_world_def)
  from store_frame [OF h] g show ?thesis using h by simp
qed

section \<open>Serving a valid access token\<close>

text \<open>What \<^verbatim>\<open>get_valid_access_token\<close> does once the expiry check has said "expired".\<close>

lemma get_valid_access_token_expired:
  "is_token_expired e p w = (Inr True, w1) \<Longrightarrow>
     get_valid_access_token e p w =
       (case refresh_tokens e p w1 of
          (Inl err, w2) \<Rightarrow> (Inl err, w2)
        | (Inr token_data, w2) \<Rightarrow> (dict_getitem token_data ''access_token'', w2))"
  by (simp add: get_valid_access_token_def)

lemma is_token_expired_absent:
  "get_tokens p w = None \<Longrightarrow> is_token_expired e p w = (Inr True, w)"
  by (simp add: is_token_expired_def)

text \<open>The expiry check on a record with an integer \<^verbatim>\<open>expires_at\<close>.\<close>

lemma is_token_expired_record:
  assumes "get_tokens p w = Some rec" and "map_of rec ''expires_at'' = Some v"
    and "as_int v = Some x"
  shows "is_token_expired e p w =
           (Inr (clock e (ticks w) > real_of_int (x - 300)), w\<lparr>ticks := Suc (ticks w)\<rparr>)"
proof -
  from assms(2) have "rec \<noteq> []" by auto
  with assms show ?thesis
    by (simp add: is_token_expired_def time_time_def dict_getitem_def)
qed

text \<open>A refresh sends nothing, or the one request of the refresh grant.\<close>

lemma refresh_tokens_sent:
  "sent (snd (refresh_tokens e p w)) = sent w \<or>
   (\<exists>cfg tokens r. map_of (PROVIDERS (settings e)) p = Some cfg \<and>
      get_tokens p w = Some tokens \<and> map_of tokens ''refresh_token'' = Some r \<and> truthy r \<and>
      sent (snd (refresh_tokens e p w)) =
        sent w @ [\<lparr>url = token_url cfg, data = refresh_payload cfg r\<rparr>])"
proof (cases "map_of (PROVIDERS (settings e)) p")
  case None
  then show ?thesis by (simp add: refresh_tokens_def dict_getitem_def)
next
  case (Some cfg)
  show ?thesis
  proof (cases "get_tokens p w")
    case None
    with Some show ?thesis by (simp add: refresh_tokens_def dict_getitem_def)
  next
    case tk: (Some tokens)
    show ?thesis
    proof (cases "tokens \<noteq> [] \<and> (\<exists>r. map_of tokens ''refresh_token'' = Some r \<and> truthy r)")
      case False
      with Some tk show ?thesis
        by (auto simp: refresh_tokens_def dict_getitem_def split: option.splits)
    next
      case True
      then obtain r where ne: "tokens \<noteq> []" and r: "map_of tokens ''refresh_token'' = Some r"
        and tr: "truthy r" by blast
      obtain res w1 where post:
        "post_for_token_data e (token_url cfg) (refresh_payload cfg r) w = (res, w1)"
        by (cases "post_for_token_data e (token_url cfg) (refresh_payload cfg r) w")
      from post_for_token_data_frame [OF post]
      have s1: "sent w1 = sent w @ [\<lparr>url = token_url cfg, data = refresh_payload cfg r\<rparr>]"
        by simp
      have "sent (snd (refresh_tokens e p w)) = sent w1"
        using Some tk ne r tr post
        by (cases res) (simp_all add: refresh_tokens_def dict_getitem_def save_tokens_sent)
      with s1 Some tk r tr show ?thesis by simp
    qed
  qed
qed

text \<open>The exceptions of a refresh are not the "Not authenticated" one.\<close>

lemma save_tokens_errors:
  "save_tokens e p td w = (Inl err, w') \<Longrightarrow> err = TypeError \<or> (\<exists>k. err = KeyError k)"
  by (auto simp: save_tokens_def Let_def time_time_def dict_getitem_def
      split: option.splits sum.splits prod.splits if_splits)

lemma post_for_token_data_errors:
  "post_for_token_data e u pl w = (Inl err, w') \<Longrightarrow>
     err = TransportError \<or> err = JSONDecodeError \<or> (\<exists>n. err = HTTPStatusError n)"
  by (auto simp: post_for_token_data_def http_post_def raise_for_status_def response_json_def
      Let_def split: http_result.splits option.splits if_splits)

lemma refresh_tokens_errors:
  assumes "refresh_tokens e p w = (Inl err, w')"
  shows "err \<noteq> ValueError (''Not authenticated with '' @ p @ ''. Visit /auth/'' @ p @ ''/login'')"
proof (cases "map_of (PROVIDERS (settings e)) p")
  case None
  with assms show ?thesis by (auto simp: refresh_tokens_def dict_getitem_def)
next
  case (Some cfg)
  show ?thesis
  proof (cases "get_tokens p w")
    case None
    with Some assms show ?thesis by (auto simp: refresh_tokens_def dict_getitem_def)
  next
    case tk: (Some tokens)
    show ?thesis
    proof (cases "tokens \<noteq> [] \<and> (\<exists>r. map_of tokens ''refresh_token'' = Some r \<and> truthy r)")
      case False
      with Some tk assms show ?thesis
        by (auto simp: refresh_tokens_def dict_getitem_def split: option.splits if_splits)
    next
      case True
      then obtain r where ne: "tokens \<noteq> []" and r: "map_of tokens ''refresh_token'' = Some r"
        and tr: "truthy r" by blast
      obtain res w1 where post:
        "post_for_token_data e (token_url cfg) (refresh_payload cfg r) w = (res, w1)"
        by (cases "post_for_token_data e (token_url cfg) (refresh_payload cfg r) w")
      show ?thesis
      proof (cases res)
        case (Inl err1)
        with Some tk ne r tr post assms have "err = err1"
          by (simp add: refresh_tokens_def dict_getitem_def)
        with post_for_token_data_errors [OF post [unfolded Inl]] show ?thesis by auto
      next
        case (Inr body)
        with Some tk ne r tr post assms
        have "\<exists>td. save_tokens e p td w1 = (Inl err, w')"
          by (auto simp: refresh_tokens_def dict_getitem_def split: if_splits)
        then show ?thesis by (auto dest: save_tokens_errors)
      qed
    qed
  qed
qed


lemma is_token_expired_frame:
  "is_token_expired e p w = (r, w1) \<Longrightarrow> store_file w1 = store_file w \<and> sent w1 = sent w"
  by (auto simp: is_token_expired_def time_time_def Let_def
      split: option.splits if_splits sum.splits)

lemma is_token_expired_False:
  "is_token_expired e p w = (Inr False, w1) \<Longrightarrow>
     \<exists>tokens. get_tokens p w = Some tokens \<and> tokens \<noteq> []"
  by (auto simp: is_token_expired_def split: option.splits if_splits)

lemma is_token_expired_errors:
  "is_token_expired e p w = (Inl err, w1) \<Longrightarrow> err = TypeError \<or> err = KeyError ''expires_at''"
  by (auto simp: is_token_expired_def time_time_def Let_def dict_getitem_def
      split: option.splits if_splits)


lemma get_valid_access_token_raised:
  "is_token_expired e p w = (Inl err, w1) \<Longrightarrow> get_valid_access_token e p w = (Inl err, w1)"
  by (simp add: get_valid_access_token_def)

lemma get_valid_access_token_valid:
  "is_token_expired e p w = (Inr False, w1) \<Longrightarrow> get_tokens p w1 = Some tokens \<Longrightarrow>
     tokens \<noteq> [] \<Longrightarrow>
     get_valid_access_token e p w = (dict_getitem tokens ''access_token'', w1)"
  by (simp add: get_valid_access_token_def)

lemma dict_getitem_errors: "dict_getitem d k = Inl err \<Longrightarrow> err = KeyError k"
  by (auto simp: dict_getitem_def split: option.splits)

lemma get_valid_access_token_errors:
  "fst (get_valid_access_token e p w) \<noteq>
     Inl (ValueError (''Not authenticated with '' @ p @ ''. Visit /auth/'' @ p @ ''/login''))"
proof -
  let ?bad = "ValueError (''Not authenticated with '' @ p @ ''. Visit /auth/'' @ p @ ''/login'')"
  obtain r w1 where ex: "is_token_expired e p w = (r, w1)"
    by (cases "is_token_expired e p w")
  show ?thesis
  proof (cases r)
    case (Inl err)
    from is_token_expired_errors [OF ex [unfolded Inl]] have "err \<noteq> ?bad" by auto
    with get_valid_access_token_raised [OF ex [unfolded Inl]] show ?thesis by simp
  next
    case (Inr b)
    show ?thesis
    proof (cases b)
      case True
      with ex Inr have ex': "is_token_expired e p w = (Inr True, w1)" by simp
      note gv = get_valid_access_token_expired [OF ex']
      obtain r2 w2 where rf: "refresh_tokens e p w1 = (r2, w2)"
        by (cases "refresh_tokens e p w1")
      show ?thesis
      proof (cases r2)
        case (Inl err)
        from refresh_tokens_errors [OF rf [unfolded Inl]] have "err \<noteq> ?bad" .
        with gv rf Inl show ?thesis by simp
      next
        case r2: (Inr td)
        have "dict_getitem td ''access_token'' \<noteq> Inl ?bad"
          using dict_getitem_errors [of td "''access_token''" ?bad] by auto
        with gv rf r2 show ?thesis by simp
      qed
    next
      case False
      with ex Inr have ex': "is_token_expired e p w = (Inr False, w1)" by simp
      from is_token_expired_False [OF ex']
      obtain tokens where tk: "get_tokens p w = Some tokens" and ne: "tokens \<noteq> []" by blast
      from is_token_expired_frame [OF ex] have "store_file w1 = store_file w" by simp
      from get_tokens_store_file [OF this] tk have tk1: "get_tokens p w1 = Some tokens" by simp
      have "dict_getitem tokens ''access_token'' \<noteq> Inl ?bad"
        using dict_getitem_errors [of tokens "''access_token''" ?bad] by auto
      with get_valid_access_token_valid [OF ex' tk1 ne] show ?thesis by simp
    qed
  qed
qed


lemma refresh_tokens_absent:
  assumes "get_tokens p w = None"
  shows "refresh_tokens e p w =
        (Inl (if p \<in> {''strava'', ''whoop''}
              then ValueError (''No refresh token stored for '' @ p @ ''. Re-authenticate.'')
              else KeyError p), w)"
proof (cases "map_of (PROVIDERS (settings e)) p")
  case None
  with PROVIDERS_supported [of "settings e" p] have "p \<notin> {''strava'', ''whoop''}" by simp
  with None show ?thesis by (simp add: refresh_tokens_def dict_getitem_def)
next
  case (Some cfg)
  with PROVIDERS_supported [of "settings e" p] have "p \<in> {''strava'', ''whoop''}" by simp
  with Some assms show ?thesis by (simp add: refresh_tokens_def dict_getitem_def)
qed

text \<open>
  Claim C7. For a provider of the registry, \<^verbatim>\<open>delete_tokens\<close> and then
  \<^verbatim>\<open>get_valid_access_token\<close>: the call raises the \<^verbatim>\<open>ValueError\<close> by which \<^verbatim>\<open>auth.py\<close> says
  that nobody is authenticated (the one of \<^verbatim>\<open>refresh_tokens\<close>, which asks to authenticate
  again). No token is returned, and the world is as the deletion left it: nothing was sent.
\<close>

theorem delete_then_get_not_authenticated:
  assumes "p \<in> {''strava'', ''whoop''}"
  shows "get_valid_access_token e p (delete_tokens p w) =
           (Inl (ValueError (''No refresh token stored for '' @ p @ ''. Re-authenticate.'')),
            delete_tokens p w)"
proof -
  have none: "get_tokens p (delete_tokens p w) = None"
    by (simp add: get_tokens_def delete_tokens_def load_store_def save_store_def delete_conv')
  from assms obtain cfg where cfg: "map_of (PROVIDERS (settings e)) p = Some cfg"
    using PROVIDERS_supported [of "settings e" p] by auto
  from none cfg have "refresh_tokens e p (delete_tokens p w) =
      (Inl (ValueError (''No refresh token stored for '' @ p @ ''. Re-authenticate.'')),
       delete_tokens p w)"
    by (simp add: refresh_tokens_def dict_getitem_def)
  with get_valid_access_token_expired [OF is_token_expired_absent [OF none]]
  show ?thesis by simp
qed

text \<open>The theorem at work: Strava is logged out of a store that had its record.\<close>

theorem delete_then_get_not_authenticated_witness:
  "''strava'' \<in> {''strava'', ''whoop''} \<and>
   get_valid_access_token (example_env 1000 [])
       ''strava''
       (delete_tokens ''strava''
          (example_world (Some [(''strava'', example_record ''A1'' ''R1'' 99999)])))
     = (Inl (ValueError ''No refresh token stored for strava. Re-authenticate.''),
        \<lparr> store_file = Some [], ticks = 0, sent = [] \<rparr>)"
proof -
  have h: "''strava'' \<in> {''strava'', ''whoop''}" by simp
  have d: "delete_tokens ''strava''
             (example_world (Some [(''strava'', example_record ''A1'' ''R1'' 99999)]))
           = \<lparr> store_file = Some [], ticks = 0, sent = [] \<rparr>"
    by (simp add: delete_tokens_def load_store_def save_store_def example_world_def
        AList.delete_eq)
  have "get_valid_access_token (example_env 1000 []) ''strava''
          (delete_tokens ''strava''
             (example_world (Some [(''strava'', example_record ''A1'' ''R1'' 99999)])))
        = (Inl (ValueError (''No refresh token stored for '' @ ''strava'' @ ''. Re-authenticate.'')),
           delete_tokens ''strava''
             (example_world (Some [(''strava'', example_record ''A1'' ''R1'' 99999)])))"
    using h by (rule delete_then_get_not_authenticated)
  then show ?thesis unfolding d using h by simp
qed

text \<open>
  Claim C8. With the store as it is at the call: when the expiry check says "not expired",
  a record is stored for the provider and it is not empty, so the test \<^verbatim>\<open>not tokens\<close> that
  follows the check in \<^verbatim>\<open>get_valid_access_token\<close> is false and its "Not authenticated"
  error is raised on no input at all. With no record stored, the call is the refresh, and
  what it raises is the error of the refresh: the \<^verbatim>\<open>KeyError\<close> of the registry, or "No
  refresh token stored".
\<close>

theorem not_authenticated_branch_unreachable:
  "(is_token_expired e p w = (Inr False, w1) \<longrightarrow>
      (\<exists>tokens. get_tokens p w1 = Some tokens \<and> tokens \<noteq> [])) \<and>
   fst (get_valid_access_token e p w) \<noteq>
     Inl (ValueError (''Not authenticated with '' @ p @ ''. Visit /auth/'' @ p @ ''/login'')) \<and>
   (get_tokens p w = None \<longrightarrow>
      get_valid_access_token e p w =
        (case refresh_tokens e p w of
           (Inl err, w2) \<Rightarrow> (Inl err, w2)
         | (Inr token_data, w2) \<Rightarrow> (dict_getitem token_data ''access_token'', w2)) \<and>
      get_valid_access_token e p w =
        (Inl (if p \<in> {''strava'', ''whoop''}
              then ValueError (''No refresh token stored for '' @ p @ ''. Re-authenticate.'')
              else KeyError p), w))"
proof (intro conjI impI)
  assume ne: "is_token_expired e p w = (Inr False, w1)"
  from is_token_expired_False [OF ne]
  obtain tokens where tk: "get_tokens p w = Some tokens" and "tokens \<noteq> []" by blast
  moreover from is_token_expired_frame [OF ne] have "store_file w1 = store_file w" by simp
  from get_tokens_store_file [OF this] have "get_tokens p w1 = get_tokens p w" .
  ultimately show "\<exists>tokens. get_tokens p w1 = Some tokens \<and> tokens \<noteq> []" by simp
next
  show "fst (get_valid_access_token e p w) \<noteq>
     Inl (ValueError (''Not authenticated with '' @ p @ ''. Visit /auth/'' @ p @ ''/login''))"
    by (rule get_valid_access_token_errors)
next
  assume none: "get_tokens p w = None"
  show "get_valid_access_token e p w =
        (case refresh_tokens e p w of
           (Inl err, w2) \<Rightarrow> (Inl err, w2)
         | (Inr token_data, w2) \<Rightarrow> (dict_getitem token_data ''access_token'', w2))"
    using get_valid_access_token_expired [OF is_token_expired_absent [OF none]] .
next
  assume none: "get_tokens p w = None"
  have "refresh_tokens e p w =
        (Inl (if p \<in> {''strava'', ''whoop''}
              then ValueError (''No refresh token stored for '' @ p @ ''. Re-authenticate.'')
              else KeyError p), w)"
    using none by (rule refresh_tokens_absent)
  with get_valid_access_token_expired [OF is_token_expired_absent [OF none], of e]
  show "get_valid_access_token e p w =
        (Inl (if p \<in> {''strava'', ''whoop''}
              then ValueError (''No refresh token stored for '' @ p @ ''. Re-authenticate.'')
              else KeyError p), w)"
    by simp
qed

text \<open>
  The theorem at work: a record that is not expired (the check says so and the record is
  found), and a store without a record for Whoop (the call fails as the refresh does).
\<close>

theorem not_authenticated_branch_unreachable_witness:
  "is_token_expired (example_env 1000 []) ''strava''
       (example_world (Some [(''strava'', example_record ''A1'' ''R1'' 5000)]))
     = (Inr False, \<lparr> store_file = Some [(''strava'', example_record ''A1'' ''R1'' 5000)],
                     ticks = 1, sent = [] \<rparr>) \<and>
   get_tokens ''strava'' \<lparr> store_file = Some [(''strava'', example_record ''A1'' ''R1'' 5000)],
                            ticks = 1, sent = [] \<rparr>
     = Some (example_record ''A1'' ''R1'' 5000) \<and>
   example_record ''A1'' ''R1'' 5000 \<noteq> [] \<and>
   get_tokens ''whoop'' (example_world (Some [(''strava'', example_record ''A1'' ''R1'' 5000)]))
     = None \<and>
   get_valid_access_token (example_env 1000 []) ''whoop''
       (example_world (Some [(''strava'', example_record ''A1'' ''R1'' 5000)]))
     = (Inl (ValueError ''No refresh token stored for whoop. Re-authenticate.''),
        example_world (Some [(''strava'', example_record ''A1'' ''R1'' 5000)]))"
proof -
  let ?e = "example_env 1000 []"
  let ?w = "example_world (Some [(''strava'', example_record ''A1'' ''R1'' 5000)])"
  let ?w1 = "\<lparr> store_file = Some [(''strava'', example_record ''A1'' ''R1'' 5000)],
               ticks = 1, sent = [] \<rparr>"
  have h1: "is_token_expired ?e ''strava'' ?w = (Inr False, ?w1)"
    by (simp add: run_defs)
  have h2: "get_tokens ''whoop'' ?w = None"
    by (simp add: get_tokens_def load_store_def example_world_def)
  have g: "get_tokens ''strava'' ?w1 = Some (example_record ''A1'' ''R1'' 5000)"
    by (simp add: get_tokens_def load_store_def)
  have n: "example_record ''A1'' ''R1'' 5000 \<noteq> []" by (simp add: example_record_def)
  note c1 = not_authenticated_branch_unreachable
    [of ?e "''strava''" ?w ?w1, THEN conjunct1, THEN mp, OF h1]
  have "get_valid_access_token ?e ''whoop'' ?w =
          (Inl (if ''whoop'' \<in> {''strava'', ''whoop''}
                then ValueError (''No refresh token stored for '' @ ''whoop'' @ ''. Re-authenticate.'')
                else KeyError ''whoop''), ?w)"
    by (rule not_authenticated_branch_unreachable
          [of ?e "''whoop''" ?w ?w1, THEN conjunct2, THEN conjunct2, THEN mp, OF h2,
           THEN conjunct2])
  then have c2: "get_valid_access_token ?e ''whoop'' ?w =
          (Inl (ValueError ''No refresh token stored for whoop. Re-authenticate.''), ?w)"
    by simp
  from h1 h2 g n c2 show ?thesis by (simp only: simp_thms)
qed

text \<open>
  Claim C5. A record is stored with an access token and an integer \<^verbatim>\<open>expires_at\<close>, and the
  clock is within the buffer (\<open>now \<le> expires_at - 300\<close>) at both calls. Then two calls of
  \<^verbatim>\<open>get_valid_access_token\<close> in a row both return the stored access token, and all that
  changes in the world is the count of clock readings: no request is sent, and the store
  file is what it was.
\<close>

theorem valid_token_read_is_idempotent:
  assumes rec: "get_tokens p w = Some rec"
    and ea: "map_of rec ''expires_at'' = Some v" "as_int v = Some x"
    and at: "map_of rec ''access_token'' = Some a"
    and now1: "clock e (ticks w) \<le> real_of_int (x - 300)"
    and now2: "clock e (Suc (ticks w)) \<le> real_of_int (x - 300)"
  shows "get_valid_access_token e p w = (Inr a, w\<lparr>ticks := Suc (ticks w)\<rparr>) \<and>
         get_valid_access_token e p (w\<lparr>ticks := Suc (ticks w)\<rparr>) =
           (Inr a, w\<lparr>ticks := Suc (Suc (ticks w))\<rparr>) \<and>
         sent (w\<lparr>ticks := Suc (Suc (ticks w))\<rparr>) = sent w \<and>
         store_file (w\<lparr>ticks := Suc (Suc (ticks w))\<rparr>) = store_file w"
proof -
  have one: "get_valid_access_token e p u = (Inr a, u\<lparr>ticks := Suc (ticks u)\<rparr>)"
    if g: "get_tokens p u = Some rec" and n: "clock e (ticks u) \<le> real_of_int (x - 300)" for u
  proof -
    from ea(1) have ne: "rec \<noteq> []" by auto
    from is_token_expired_record [OF g ea] n
    have ex: "is_token_expired e p u = (Inr False, u\<lparr>ticks := Suc (ticks u)\<rparr>)"
      by simp
    have "store_file (u\<lparr>ticks := Suc (ticks u)\<rparr>) = store_file u" by simp
    from get_tokens_store_file [OF this] g
    have g1: "get_tokens p (u\<lparr>ticks := Suc (ticks u)\<rparr>) = Some rec" by simp
    from get_valid_access_token_valid [OF ex g1 ne] at show ?thesis
      by (simp add: dict_getitem_def)
  qed
  let ?w1 = "w\<lparr>ticks := Suc (ticks w)\<rparr>"
  have "store_file ?w1 = store_file w" by simp
  from get_tokens_store_file [OF this] rec have g1: "get_tokens p ?w1 = Some rec" by simp
  from now2 have n1: "clock e (ticks ?w1) \<le> real_of_int (x - 300)" by simp
  from one [OF rec now1] one [OF g1 n1] show ?thesis by simp
qed

text \<open>
  The theorem at work: a Strava record that expires at 5000, read at 1000 and at 1001.
\<close>

theorem valid_token_read_is_idempotent_witness:
  "get_tokens ''strava'' (example_world (Some [(''strava'', example_record ''A1'' ''R1'' 5000)]))
     = Some (example_record ''A1'' ''R1'' 5000) \<and>
   clock (example_env 1000 []) 0 \<le> real_of_int (5000 - 300) \<and>
   clock (example_env 1000 []) 1 \<le> real_of_int (5000 - 300) \<and>
   get_valid_access_token (example_env 1000 []) ''strava''
       (example_world (Some [(''strava'', example_record ''A1'' ''R1'' 5000)]))
     = (Inr (JStr ''A1''),
        \<lparr> store_file = Some [(''strava'', example_record ''A1'' ''R1'' 5000)],
          ticks = 1, sent = [] \<rparr>) \<and>
   get_valid_access_token (example_env 1000 []) ''strava''
       \<lparr> store_file = Some [(''strava'', example_record ''A1'' ''R1'' 5000)],
         ticks = 1, sent = [] \<rparr>
     = (Inr (JStr ''A1''),
        \<lparr> store_file = Some [(''strava'', example_record ''A1'' ''R1'' 5000)],
          ticks = 2, sent = [] \<rparr>)"
proof -
  let ?e = "example_env 1000 []"
  let ?w = "example_world (Some [(''strava'', example_record ''A1'' ''R1'' 5000)])"
  have h1: "get_tokens ''strava'' ?w = Some (example_record ''A1'' ''R1'' 5000)"
    by (simp add: get_tokens_def load_store_def example_world_def)
  have h2: "map_of (example_record ''A1'' ''R1'' 5000) ''expires_at'' = Some (JInt 5000)"
    by (simp add: example_record_def)
  have h3: "as_int (JInt 5000) = Some 5000" by simp
  have h4: "map_of (example_record ''A1'' ''R1'' 5000) ''access_token'' = Some (JStr ''A1'')"
    by (simp add: example_record_def)
  have h5: "clock ?e (ticks ?w) \<le> real_of_int (5000 - 300)"
    by (simp add: example_env_def example_world_def)
  have h6: "clock ?e (Suc (ticks ?w)) \<le> real_of_int (5000 - 300)"
    by (simp add: example_env_def example_world_def)
  from valid_token_read_is_idempotent [OF h1 h2 h3 h4 h5 h6] h1 h5 h6
  show ?thesis by (simp add: example_world_def)
qed

text \<open>
  Claim C4, as the code has it. The claim takes the token for expired when
  \<open>expires_at - now \<le> 300\<close>; the code (and the sentence of the specification on the
  buffer) has \<open>now > expires_at - 300\<close>, which leaves out the instant
  \<open>now = expires_at - 300\<close>. At that instant no refresh is made: the stored access token is
  returned and nothing is sent, although the provider would have answered a refresh.
\<close>

theorem boundary_token_is_not_refreshed:
  "real_of_int 1300 - clock (example_env 1000 [(''access_token'', JStr ''A2''), (''expires_in'', JInt 21600)]) 0 \<le> 300 \<and>
   get_valid_access_token
       (example_env 1000 [(''access_token'', JStr ''A2''), (''expires_in'', JInt 21600)])
       ''strava''
       (example_world (Some [(''strava'', example_record ''A1'' ''R1'' 1300)]))
     = (Inr (JStr ''A1''),
        \<lparr> store_file = Some [(''strava'', example_record ''A1'' ''R1'' 1300)],
          ticks = 1, sent = [] \<rparr>) \<and>
   refresh_tokens
       (example_env 1000 [(''access_token'', JStr ''A2''), (''expires_in'', JInt 21600)])
       ''strava''
       \<lparr> store_file = Some [(''strava'', example_record ''A1'' ''R1'' 1300)],
         ticks = 1, sent = [] \<rparr>
     = (Inr [(''access_token'', JStr ''A2''), (''expires_in'', JInt 21600),
             (''refresh_token'', JStr ''R1''), (''expires_at'', JInt 22601)],
        \<lparr> store_file = Some [(''strava'', example_record ''A2'' ''R1'' 22601)],
          ticks = 2, sent = [strava_refresh_request ''R1''] \<rparr>) \<and>
   get_valid_access_token
       (example_env 1000 [(''access_token'', JStr ''A2''), (''expires_in'', JInt 21600)])
       ''strava''
       (example_world (Some [(''strava'', example_record ''A1'' ''R1'' 1300)]))
     \<noteq> (case refresh_tokens
              (example_env 1000 [(''access_token'', JStr ''A2''), (''expires_in'', JInt 21600)])
              ''strava''
              \<lparr> store_file = Some [(''strava'', example_record ''A1'' ''R1'' 1300)],
                ticks = 1, sent = [] \<rparr> of
           (Inl err, w2) \<Rightarrow> (Inl err, w2)
         | (Inr token_data, w2) \<Rightarrow> (dict_getitem token_data ''access_token'', w2))"
  by (simp add: run_defs)

text \<open>
  Claim C4, amended. A record is stored with an integer \<^verbatim>\<open>expires_at\<close> and
  \<open>expires_at - now < 300\<close> when the expiry check reads the clock. Then
  \<^verbatim>\<open>get_valid_access_token\<close> is one call of \<^verbatim>\<open>refresh_tokens\<close>, made after that clock
  reading: it raises what the refresh raises and returns the access token of what the
  refresh returns. At most one request is sent, and when the refresh has what it needs (a
  provider of the registry, a stored refresh token that is a true value) exactly one, the
  request of the refresh grant.
\<close>

theorem expired_token_is_refreshed_once:
  assumes rec: "get_tokens p w = Some rec"
    and ea: "map_of rec ''expires_at'' = Some v" "as_int v = Some x"
    and late: "real_of_int x - clock e (ticks w) < 300"
  shows "get_valid_access_token e p w =
           (case refresh_tokens e p (w\<lparr>ticks := Suc (ticks w)\<rparr>) of
              (Inl err, w2) \<Rightarrow> (Inl err, w2)
            | (Inr token_data, w2) \<Rightarrow> (dict_getitem token_data ''access_token'', w2)) \<and>
         length (sent (snd (get_valid_access_token e p w))) \<le> Suc (length (sent w)) \<and>
         (\<forall>cfg r. map_of (PROVIDERS (settings e)) p = Some cfg \<and>
                  map_of rec ''refresh_token'' = Some r \<and> truthy r \<longrightarrow>
            sent (snd (get_valid_access_token e p w)) =
              sent w @ [\<lparr>url = token_url cfg, data = refresh_payload cfg r\<rparr>])"
proof -
  let ?w1 = "w\<lparr>ticks := Suc (ticks w)\<rparr>"
  from late have "clock e (ticks w) > real_of_int (x - 300)" by simp
  with is_token_expired_record [OF rec ea, of e]
  have ex: "is_token_expired e p w = (Inr True, ?w1)" by simp
  note gv = get_valid_access_token_expired [OF ex]
  have snd_eq: "snd (get_valid_access_token e p w) = snd (refresh_tokens e p ?w1)"
    unfolding gv by (simp split: prod.splits sum.splits)
  have "store_file ?w1 = store_file w" by simp
  from get_tokens_store_file [OF this] rec have g1: "get_tokens p ?w1 = Some rec" by simp
  have s1: "sent ?w1 = sent w" by simp
  from refresh_tokens_sent [of e p ?w1]
  have le: "length (sent (snd (refresh_tokens e p ?w1))) \<le> Suc (length (sent w))"
    unfolding s1 by auto
  have ex1: "sent (snd (refresh_tokens e p ?w1)) =
               sent w @ [\<lparr>url = token_url cfg, data = refresh_payload cfg r\<rparr>]"
    if c: "map_of (PROVIDERS (settings e)) p = Some cfg"
      and r: "map_of rec ''refresh_token'' = Some r" and tr: "truthy r" for cfg r
  proof -
    from r have ne: "rec \<noteq> []" by auto
    obtain res w2 where post:
      "post_for_token_data e (token_url cfg) (refresh_payload cfg r) ?w1 = (res, w2)"
      by (cases "post_for_token_data e (token_url cfg) (refresh_payload cfg r) ?w1")
    from post_for_token_data_frame [OF post]
    have s2: "sent w2 = sent w @ [\<lparr>url = token_url cfg, data = refresh_payload cfg r\<rparr>]"
      by simp
    have "sent (snd (refresh_tokens e p ?w1)) = sent w2"
      using c g1 ne r tr post
      by (cases res) (simp_all add: refresh_tokens_def dict_getitem_def save_tokens_sent)
    with s2 show ?thesis by simp
  qed
  from gv le ex1 show ?thesis unfolding snd_eq by blast
qed

text \<open>
  The theorem at work: one second past the boundary the token is refreshed, with one
  request.
\<close>

theorem expired_token_is_refreshed_once_witness:
  "get_tokens ''strava'' (example_world (Some [(''strava'', example_record ''A1'' ''R1'' 1299)]))
     = Some (example_record ''A1'' ''R1'' 1299) \<and>
   real_of_int 1299 - clock (example_env 1000 [(''access_token'', JStr ''A2''), (''expires_in'', JInt 21600)]) 0 < 300 \<and>
   get_valid_access_token
       (example_env 1000 [(''access_token'', JStr ''A2''), (''expires_in'', JInt 21600)])
       ''strava''
       (example_world (Some [(''strava'', example_record ''A1'' ''R1'' 1299)]))
     = (Inr (JStr ''A2''),
        \<lparr> store_file = Some [(''strava'', example_record ''A2'' ''R1'' 22601)],
          ticks = 2, sent = [strava_refresh_request ''R1''] \<rparr>)"
proof -
  let ?body = "[(''access_token'', JStr ''A2''), (''expires_in'', JInt 21600)]"
  let ?e = "example_env 1000 ?body"
  let ?w = "example_world (Some [(''strava'', example_record ''A1'' ''R1'' 1299)])"
  have h1: "get_tokens ''strava'' ?w = Some (example_record ''A1'' ''R1'' 1299)"
    by (simp add: get_tokens_def load_store_def example_world_def)
  have h2: "map_of (example_record ''A1'' ''R1'' 1299) ''expires_at'' = Some (JInt 1299)"
    by (simp add: example_record_def)
  have h3: "as_int (JInt 1299) = Some 1299" by simp
  have h4: "real_of_int 1299 - clock ?e (ticks ?w) < 300"
    by (simp add: example_env_def example_world_def)
  have rf: "refresh_tokens ?e ''strava'' (?w\<lparr>ticks := Suc (ticks ?w)\<rparr>) =
     (Inr [(''access_token'', JStr ''A2''), (''expires_in'', JInt 21600),
           (''refresh_token'', JStr ''R1''), (''expires_at'', JInt 22601)],
      \<lparr> store_file = Some [(''strava'', example_record ''A2'' ''R1'' 22601)], ticks = 2,
        sent = [strava_refresh_request ''R1''] \<rparr>)"
    by (simp add: run_defs)
  note call = expired_token_is_refreshed_once [OF h1 h2 h3 h4, THEN conjunct1]
  have "get_valid_access_token ?e ''strava'' ?w =
     (Inr (JStr ''A2''),
      \<lparr> store_file = Some [(''strava'', example_record ''A2'' ''R1'' 22601)], ticks = 2,
        sent = [strava_refresh_request ''R1''] \<rparr>)"
    unfolding call rf by (simp add: dict_getitem_def)
  with h1 h4 show ?thesis by (simp add: example_world_def)
qed

text \<open>
  Claim C10. The token data have the two tokens that \<^verbatim>\<open>save_tokens\<close> expects and neither
  \<^verbatim>\<open>expires_at\<close> nor \<^verbatim>\<open>expires_in\<close>. Then, for every provider identifier, \<^verbatim>\<open>save_tokens\<close>
  returns, reads no clock, sends nothing and writes the record with \<^verbatim>\<open>expires_at\<close> 0. In
  every later world that still holds this record for the provider, at any clock reading
  after the last five minutes of 1969 (every reading of a Unix clock), the expiry check
  says "expired" and \<^verbatim>\<open>get_valid_access_token\<close> is the call of \<^verbatim>\<open>refresh_tokens\<close>.
\<close>

theorem missing_expiry_is_always_expired:
  assumes no_at: "map_of token_data ''expires_at'' = None"
    and no_in: "map_of token_data ''expires_in'' = None"
    and acc: "map_of token_data ''access_token'' = Some a"
    and rft: "map_of token_data ''refresh_token'' = Some r"
  shows "save_tokens e p token_data w =
           (Inr token_data,
            w\<lparr>store_file := Some (AList.update p
                 [(''access_token'', a), (''refresh_token'', r), (''expires_at'', JInt 0)]
                 (load_store w))\<rparr>) \<and>
         get_tokens p (snd (save_tokens e p token_data w)) =
           Some [(''access_token'', a), (''refresh_token'', r), (''expires_at'', JInt 0)] \<and>
         (\<forall>w2. get_tokens p w2 = get_tokens p (snd (save_tokens e p token_data w)) \<and>
               - 300 < clock e (ticks w2) \<longrightarrow>
            is_token_expired e p w2 = (Inr True, w2\<lparr>ticks := Suc (ticks w2)\<rparr>) \<and>
            get_valid_access_token e p w2 =
              (case refresh_tokens e p (w2\<lparr>ticks := Suc (ticks w2)\<rparr>) of
                 (Inl err, w3) \<Rightarrow> (Inl err, w3)
               | (Inr token_data, w3) \<Rightarrow> (dict_getitem token_data ''access_token'', w3)))"
proof -
  let ?rec = "[(''access_token'', a), (''refresh_token'', r), (''expires_at'', JInt 0)]"
  let ?w' = "w\<lparr>store_file := Some (AList.update p ?rec (load_store w))\<rparr>"
  have run: "save_tokens e p token_data w = (Inr token_data, ?w')"
    using no_at no_in acc rft
    by (simp add: save_tokens_def dict_getitem_def save_store_def)
  have g: "get_tokens p (snd (save_tokens e p token_data w)) = Some ?rec"
    unfolding run by (simp add: get_tokens_def load_store_def update_conv')
  have later: "is_token_expired e p w2 = (Inr True, w2\<lparr>ticks := Suc (ticks w2)\<rparr>) \<and>
            get_valid_access_token e p w2 =
              (case refresh_tokens e p (w2\<lparr>ticks := Suc (ticks w2)\<rparr>) of
                 (Inl err, w3) \<Rightarrow> (Inl err, w3)
               | (Inr token_data, w3) \<Rightarrow> (dict_getitem token_data ''access_token'', w3))"
    if same: "get_tokens p w2 = get_tokens p (snd (save_tokens e p token_data w))"
      and now: "- 300 < clock e (ticks w2)" for w2
  proof -
    from same g have g2: "get_tokens p w2 = Some ?rec" by simp
    have ea: "map_of ?rec ''expires_at'' = Some (JInt 0)" by simp
    have ai: "as_int (JInt 0) = Some 0" by simp
    from is_token_expired_record [OF g2 ea ai, of e] now
    have ex: "is_token_expired e p w2 = (Inr True, w2\<lparr>ticks := Suc (ticks w2)\<rparr>)" by simp
    with get_valid_access_token_expired [OF ex] show ?thesis by simp
  qed
  from run g later show ?thesis by blast
qed

text \<open>
  The theorem at work: token data with the two tokens only, saved for Whoop into a store
  that does not exist yet; the record gets \<^verbatim>\<open>expires_at\<close> 0 and a read at time 1000 goes
  to the provider for a refresh.
\<close>

theorem missing_expiry_is_always_expired_witness:
  "map_of [(''access_token'', JStr ''A1''), (''refresh_token'', JStr ''R1'')] ''expires_at'' = None \<and>
   map_of [(''access_token'', JStr ''A1''), (''refresh_token'', JStr ''R1'')] ''expires_in'' = None \<and>
   map_of [(''access_token'', JStr ''A1''), (''refresh_token'', JStr ''R1'')] ''access_token''
     = Some (JStr ''A1'') \<and>
   map_of [(''access_token'', JStr ''A1''), (''refresh_token'', JStr ''R1'')] ''refresh_token''
     = Some (JStr ''R1'') \<and>
   save_tokens (example_env 1000 [(''access_token'', JStr ''A2''), (''expires_in'', JInt 21600)])
       ''whoop'' [(''access_token'', JStr ''A1''), (''refresh_token'', JStr ''R1'')]
       (example_world None)
     = (Inr [(''access_token'', JStr ''A1''), (''refresh_token'', JStr ''R1'')],
        example_world (Some [(''whoop'', example_record ''A1'' ''R1'' 0)])) \<and>
   - 300 < clock (example_env 1000 [(''access_token'', JStr ''A2''), (''expires_in'', JInt 21600)]) 0 \<and>
   is_token_expired (example_env 1000 [(''access_token'', JStr ''A2''), (''expires_in'', JInt 21600)])
       ''whoop'' (example_world (Some [(''whoop'', example_record ''A1'' ''R1'' 0)]))
     = (Inr True, \<lparr> store_file = Some [(''whoop'', example_record ''A1'' ''R1'' 0)],
                    ticks = 1, sent = [] \<rparr>) \<and>
   get_valid_access_token
       (example_env 1000 [(''access_token'', JStr ''A2''), (''expires_in'', JInt 21600)])
       ''whoop'' (example_world (Some [(''whoop'', example_record ''A1'' ''R1'' 0)]))
     = (Inr (JStr ''A2''),
        \<lparr> store_file = Some [(''whoop'', example_record ''A2'' ''R1'' 22601)],
          ticks = 2,
          sent = [\<lparr> url = ''https://api.prod.whoop.com/oauth/oauth2/token'',
                    data = [(''client_id'', JStr []), (''client_secret'', JStr []),
                            (''grant_type'', JStr ''refresh_token''),
                            (''refresh_token'', JStr ''R1'')] \<rparr>] \<rparr>)"
proof -
  let ?e = "example_env 1000 [(''access_token'', JStr ''A2''), (''expires_in'', JInt 21600)]"
  let ?td = "[(''access_token'', JStr ''A1''), (''refresh_token'', JStr ''R1'')]"
  let ?w' = "example_world (Some [(''whoop'', example_record ''A1'' ''R1'' 0)])"
  let ?w3 = "\<lparr> store_file = Some [(''whoop'', example_record ''A2'' ''R1'' 22601)],
               ticks = 2,
               sent = [\<lparr> url = ''https://api.prod.whoop.com/oauth/oauth2/token'',
                         data = [(''client_id'', JStr []), (''client_secret'', JStr []),
                                 (''grant_type'', JStr ''refresh_token''),
                                 (''refresh_token'', JStr ''R1'')] \<rparr>] \<rparr>"
  have h1: "map_of ?td ''expires_at'' = None" by simp
  have h2: "map_of ?td ''expires_in'' = None" by simp
  have h3: "map_of ?td ''access_token'' = Some (JStr ''A1'')" by simp
  have h4: "map_of ?td ''refresh_token'' = Some (JStr ''R1'')" by simp
  note at_input = missing_expiry_is_always_expired
    [OF h1 h2 h3 h4, of ?e "''whoop''" "example_world None"]
  from at_input have sv: "save_tokens ?e ''whoop'' ?td (example_world None) = (Inr ?td, ?w')"
    by (simp add: example_world_def example_record_def load_store_def)
  have h5: "- 300 < clock ?e (ticks ?w')" by (simp add: example_env_def example_world_def)
  have same: "get_tokens ''whoop'' ?w' =
                get_tokens ''whoop'' (snd (save_tokens ?e ''whoop'' ?td (example_world None)))"
    unfolding sv by simp
  have rf: "refresh_tokens ?e ''whoop'' (?w'\<lparr>ticks := Suc (ticks ?w')\<rparr>) =
     (Inr [(''access_token'', JStr ''A2''), (''expires_in'', JInt 21600),
           (''refresh_token'', JStr ''R1''), (''expires_at'', JInt 22601)], ?w3)"
    by (simp add: run_defs)
  from at_input [THEN conjunct2, THEN conjunct2, THEN spec, of ?w'] same h5
  have later: "is_token_expired ?e ''whoop'' ?w' = (Inr True, ?w'\<lparr>ticks := Suc (ticks ?w')\<rparr>) \<and>
     get_valid_access_token ?e ''whoop'' ?w' =
       (case refresh_tokens ?e ''whoop'' (?w'\<lparr>ticks := Suc (ticks ?w')\<rparr>) of
          (Inl err, w3) \<Rightarrow> (Inl err, w3)
        | (Inr token_data, w3) \<Rightarrow> (dict_getitem token_data ''access_token'', w3))"
    by blast
  then have "is_token_expired ?e ''whoop'' ?w' =
        (Inr True, \<lparr> store_file = Some [(''whoop'', example_record ''A1'' ''R1'' 0)],
                    ticks = 1, sent = [] \<rparr>)"
    by (simp add: example_world_def)
  moreover from later have "get_valid_access_token ?e ''whoop'' ?w' = (Inr (JStr ''A2''), ?w3)"
    unfolding rf by (simp add: dict_getitem_def)
  moreover from h5 have "- 300 < clock ?e 0" by (simp add: example_world_def)
  ultimately show ?thesis using h1 h2 h3 h4 sv by (simp only: simp_thms)
qed

section \<open>Unknown providers\<close>

text \<open>
  Claim C3, as the code has it. \<^verbatim>\<open>auth.py\<close> has no error of its own for an identifier
  outside the registry: the lookup \<^verbatim>\<open>PROVIDERS[provider]\<close> raises Python's \<^verbatim>\<open>KeyError\<close>, a
  key-lookup failure, which is what the claim excludes. (The routes reject such an
  identifier themselves, before they call these operations.)
\<close>

theorem unknown_provider_is_a_key_lookup_failure:
  "get_authorize_url (example_env 1000 []) ''garmin'' = Inl (KeyError ''garmin'') \<and>
   exchange_code_for_tokens (example_env 1000 []) ''garmin'' ''code'' (example_world None)
     = (Inl (KeyError ''garmin''), example_world None) \<and>
   refresh_tokens (example_env 1000 []) ''garmin'' (example_world None)
     = (Inl (KeyError ''garmin''), example_world None) \<and>
   get_valid_access_token (example_env 1000 []) ''garmin'' (example_world None)
     = (Inl (KeyError ''garmin''), example_world None)"
  by (simp add: run_defs)

text \<open>
  Claim C3, amended. For an identifier outside \<open>{strava, whoop}\<close>,
  \<^verbatim>\<open>get_authorize_url\<close>, \<^verbatim>\<open>exchange_code_for_tokens\<close> and \<^verbatim>\<open>refresh_tokens\<close> raise
  \<^verbatim>\<open>KeyError\<close> with the identifier, and leave the world as it was (nothing sent, nothing
  written). \<^verbatim>\<open>get_valid_access_token\<close> raises the same \<^verbatim>\<open>KeyError\<close> whenever its expiry
  check says "expired", which it does when no record is stored under the identifier.
\<close>

theorem unknown_provider_raises_KeyError:
  assumes "p \<notin> {''strava'', ''whoop''}"
  shows "get_authorize_url e p = Inl (KeyError p) \<and>
         exchange_code_for_tokens e p code w = (Inl (KeyError p), w) \<and>
         refresh_tokens e p w = (Inl (KeyError p), w) \<and>
         (\<forall>w1. is_token_expired e p w = (Inr True, w1) \<longrightarrow>
            get_valid_access_token e p w = (Inl (KeyError p), w1)) \<and>
         (get_tokens p w = None \<longrightarrow> get_valid_access_token e p w = (Inl (KeyError p), w))"
proof -
  note unknown = PROVIDERS_unknown [OF assms, of "settings e"]
  have a: "get_authorize_url e p = Inl (KeyError p)"
    by (simp add: get_authorize_url_def unknown)
  have b: "exchange_code_for_tokens e p code w = (Inl (KeyError p), w)"
    by (simp add: exchange_code_for_tokens_def unknown)
  have c: "refresh_tokens e p u = (Inl (KeyError p), u)" for u
    by (simp add: refresh_tokens_def unknown)
  have d: "get_valid_access_token e p w = (Inl (KeyError p), w1)"
    if "is_token_expired e p w = (Inr True, w1)" for w1
    using get_valid_access_token_expired [OF that] by (simp add: c)
  have f: "get_valid_access_token e p w = (Inl (KeyError p), w)" if "get_tokens p w = None"
    using d [OF is_token_expired_absent [OF that]] .
  from a b c d f show ?thesis by blast
qed

text \<open>The theorem at work, on an identifier that is not in the registry.\<close>

theorem unknown_provider_raises_KeyError_witness:
  "''fitbit'' \<notin> {''strava'', ''whoop''} \<and>
   get_tokens ''fitbit'' (example_world (Some [(''strava'', example_record ''A1'' ''R1'' 5000)])) = None \<and>
   get_authorize_url (example_env 1000 []) ''fitbit'' = Inl (KeyError ''fitbit'') \<and>
   exchange_code_for_tokens (example_env 1000 []) ''fitbit'' ''code''
       (example_world (Some [(''strava'', example_record ''A1'' ''R1'' 5000)]))
     = (Inl (KeyError ''fitbit''),
        example_world (Some [(''strava'', example_record ''A1'' ''R1'' 5000)])) \<and>
   refresh_tokens (example_env 1000 []) ''fitbit''
       (example_world (Some [(''strava'', example_record ''A1'' ''R1'' 5000)]))
     = (Inl (KeyError ''fitbit''),
        example_world (Some [(''strava'', example_record ''A1'' ''R1'' 5000)])) \<and>
   get_valid_access_token (example_env 1000 []) ''fitbit''
       (example_world (Some [(''strava'', example_record ''A1'' ''R1'' 5000)]))
     = (Inl (KeyError ''fitbit''),
        example_world (Some [(''strava'', example_record ''A1'' ''R1'' 5000)]))"
proof -
  let ?w = "example_world (Some [(''strava'', example_record ''A1'' ''R1'' 5000)])"
  have h: "''fitbit'' \<notin> {''strava'', ''whoop''}" by simp
  have g: "get_tokens ''fitbit'' ?w = None"
    by (simp add: get_tokens_def load_store_def example_world_def)
  from unknown_provider_raises_KeyError [OF h, of "example_env 1000 []" "''code''" ?w] g h
  show ?thesis by simp
qed

end
